theory Spec2Isabelle
  imports Complex_Main
begin

section \<open>Data model\<close>

text \<open>
  The repository works on NumPy arrays of floating-point pitch values in which NaN marks a
  frame without a detected pitch. An input frequency is modelled as \<open>real option\<close>:
  \<open>None\<close> is NaN (the spec's "absent"), \<open>Some x\<close> a finite value; time stamps are
  finite reals. A one-dimensional array is a list. Arithmetic on finite values is exact
  arithmetic on the reals (rounding and overflow are not modelled). Wherever NumPy
  produces an infinity or a NaN from finite operands (a division by zero, the logarithm of
  a non-positive number) the value is an \<open>npfloat\<close>, which carries the IEEE special
  values; the sign of a zero is not modelled, a zero divisor counts as \<open>+0\<close>.
\<close>

type_synonym freq = "real option"

datatype npfloat = Finite real | PosInf | NegInf | NaN

datatype error =
    ShapeMismatch      \<comment> \<open>the \<open>ValueError\<close> raised by \<open>Scorer.score_pitch\<close>\<close>
  | BroadcastError     \<comment> \<open>NumPy's \<open>ValueError\<close>: operands could not be broadcast together\<close>
  | IndexError         \<comment> \<open>NumPy's \<open>IndexError\<close>: boolean index did not match the indexed array\<close>

record PitchMetrics =
  mean_error_hz :: npfloat
  std_error_hz :: npfloat
  accuracy :: real
  stability :: real
  voiced_frames :: int
  total_frames :: int

text \<open>The optional fields of \<open>VibratoMetrics\<close> default to Python's \<open>None\<close>, the
  coverage to \<open>0.0\<close>.\<close>

record VibratoMetrics =
  detected :: bool
  frequency_hz :: "npfloat option"
  depth_cents :: "npfloat option"
  coverage :: real


text \<open>The constructor arguments of \<open>PerformanceAnalyzer\<close>.\<close>

record PerformanceAnalyzer =
  pitch_tolerance_cents :: real
  vibrato_freq_range :: "real \<times> real"
  min_vibrato_depth :: real

definition default_analyzer :: PerformanceAnalyzer where
  "default_analyzer =
     \<lparr> pitch_tolerance_cents = 100, vibrato_freq_range = (4, 8), min_vibrato_depth = 30 \<rparr>"

section \<open>Floating-point special values\<close>

fun nf_neg :: "npfloat \<Rightarrow> npfloat" where
  "nf_neg (Finite x) = Finite (- x)"
| "nf_neg PosInf = NegInf"
| "nf_neg NegInf = PosInf"
| "nf_neg NaN = NaN"

fun nf_abs :: "npfloat \<Rightarrow> npfloat" where
  "nf_abs (Finite x) = Finite \<bar>x\<bar>"
| "nf_abs PosInf = PosInf"
| "nf_abs NegInf = PosInf"
| "nf_abs NaN = NaN"


text \<open>The sign of an infinity times a finite value follows the sign of that value;
  infinity times zero is NaN.\<close>

definition inf_times :: "bool \<Rightarrow> real \<Rightarrow> npfloat" where
  "inf_times positive y =
     (if y = 0 then NaN else if (0 < y) = positive then PosInf else NegInf)"

fun nf_mul :: "npfloat \<Rightarrow> npfloat \<Rightarrow> npfloat" where
  "nf_mul (Finite x) (Finite y) = Finite (x * y)"
| "nf_mul NaN _ = NaN"
| "nf_mul _ NaN = NaN"
| "nf_mul PosInf (Finite y) = inf_times True y"
| "nf_mul NegInf (Finite y) = inf_times False y"
| "nf_mul (Finite x) PosInf = inf_times True x"
| "nf_mul (Finite x) NegInf = inf_times False x"
| "nf_mul PosInf PosInf = PosInf"
| "nf_mul NegInf NegInf = PosInf"
| "nf_mul PosInf NegInf = NegInf"
| "nf_mul NegInf PosInf = NegInf"

fun nf_div :: "npfloat \<Rightarrow> npfloat \<Rightarrow> npfloat" where
  "nf_div (Finite x) (Finite y) =
     (if y \<noteq> 0 then Finite (x / y)
      else if x = 0 then NaN else if 0 < x then PosInf else NegInf)"
| "nf_div NaN _ = NaN"
| "nf_div _ NaN = NaN"
| "nf_div (Finite x) PosInf = Finite 0"
| "nf_div (Finite x) NegInf = Finite 0"
| "nf_div PosInf (Finite y) = (if 0 \<le> y then PosInf else NegInf)"
| "nf_div NegInf (Finite y) = (if 0 \<le> y then NegInf else PosInf)"
| "nf_div PosInf PosInf = NaN"
| "nf_div PosInf NegInf = NaN"
| "nf_div NegInf PosInf = NaN"
| "nf_div NegInf NegInf = NaN"

text \<open>\<open>np.log2\<close>: \<open>-inf\<close> at zero, NaN below zero.\<close>

fun nf_log2 :: "npfloat \<Rightarrow> npfloat" where
  "nf_log2 (Finite x) = (if 0 < x then Finite (log 2 x) else if x = 0 then NegInf else NaN)"
| "nf_log2 PosInf = PosInf"
| "nf_log2 NegInf = NaN"
| "nf_log2 NaN = NaN"

text \<open>Comparisons: every comparison with a NaN is false.\<close>

fun nf_less :: "npfloat \<Rightarrow> npfloat \<Rightarrow> bool" where
  "nf_less (Finite x) (Finite y) = (x < y)"
| "nf_less NaN _ = False"
| "nf_less _ NaN = False"
| "nf_less NegInf NegInf = False"
| "nf_less NegInf _ = True"
| "nf_less PosInf _ = False"
| "nf_less (Finite x) PosInf = True"
| "nf_less (Finite x) NegInf = False"

fun nf_eq :: "npfloat \<Rightarrow> npfloat \<Rightarrow> bool" where
  "nf_eq NaN _ = False"
| "nf_eq _ NaN = False"
| "nf_eq a b = (a = b)"

definition nf_le :: "npfloat \<Rightarrow> npfloat \<Rightarrow> bool" where
  "nf_le a b = (nf_less a b \<or> nf_eq a b)"

section \<open>NumPy primitives used by the source\<close>

definition isnan :: "freq \<Rightarrow> bool" where
  "isnan x = (x = None)"

text \<open>\<open>a & b\<close> on two boolean arrays: equal lengths combine elementwise, an array of
  length one is broadcast against the other, anything else raises.\<close>

definition mask_and :: "bool list \<Rightarrow> bool list \<Rightarrow> error + bool list" where
  "mask_and a b =
     (if length a = length b then Inr (map (\<lambda>(x, y). x \<and> y) (zip a b))
      else if length a = 1 then Inr (map (\<lambda>y. hd a \<and> y) b)
      else if length b = 1 then Inr (map (\<lambda>x. x \<and> hd b) a)
      else Inl BroadcastError)"

definition valid_mask :: "freq list \<Rightarrow> freq list \<Rightarrow> error + bool list" where
  "valid_mask user_pitch target_pitch =
     mask_and (map (\<lambda>x. \<not> isnan x) user_pitch) (map (\<lambda>x. \<not> isnan x) target_pitch)"

text \<open>\<open>np.sum(mask)\<close>: the number of true entries.\<close>

definition mask_count :: "bool list \<Rightarrow> nat" where
  "mask_count m = length (filter (\<lambda>b. b) m)"

text \<open>\<open>xs[mask]\<close>: boolean-mask indexing; the mask must have the length of the array.\<close>

definition mask_select :: "'a list \<Rightarrow> bool list \<Rightarrow> error + 'a list" where
  "mask_select xs m =
     (if length xs = length m then Inr (map fst (filter snd (zip xs m)))
      else Inl IndexError)"

definition mean :: "real list \<Rightarrow> real" where
  "mean xs = sum_list xs / real (length xs)"

text \<open>\<open>np.std\<close> with its default \<open>ddof = 0\<close>.\<close>

definition std :: "real list \<Rightarrow> real" where
  "std xs = sqrt (mean (map (\<lambda>x. (\<bar>x - mean xs\<bar>)\<^sup>2) xs))"

text \<open>Python's built-in \<open>min(a, b)\<close> and \<open>max(a, b)\<close> on two arguments: the first
  argument is kept unless the second is strictly smaller (larger).\<close>

definition py_min :: "real \<Rightarrow> real \<Rightarrow> real" where
  "py_min a b = (if b < a then b else a)"

definition py_max :: "real \<Rightarrow> real \<Rightarrow> real" where
  "py_max a b = (if b > a then b else a)"

section \<open>scorer.py\<close>

text \<open>
  \<open>Scorer.score_pitch\<close> on one-dimensional arrays, whose shape is their length. The
  values selected by the mask are present in both arrays, so \<open>the\<close> is applied to
  \<open>Some\<close> values only.
\<close>

definition score_pitch :: "freq list \<Rightarrow> freq list \<Rightarrow> error + real" where
  "score_pitch user_pitch target_pitch =
     (if length user_pitch \<noteq> length target_pitch then Inl ShapeMismatch
      else
        (case valid_mask user_pitch target_pitch of
           Inl e \<Rightarrow> Inl e
         | Inr vmask \<Rightarrow>
             (case mask_select user_pitch vmask of
                Inl e \<Rightarrow> Inl e
              | Inr user_valid \<Rightarrow>
                  (case mask_select target_pitch vmask of
                     Inl e \<Rightarrow> Inl e
                   | Inr target_valid \<Rightarrow>
                       let diff = map (\<lambda>(u, t). \<bar>u - t\<bar>)
                                      (zip (map the user_valid) (map the target_valid))
                       in if length diff = 0 then Inr 0
                          else let score = 100 - mean diff * 0.5
                               in Inr (py_max 0 (py_min 100 score))))))"

section \<open>performance.py\<close>

subsection \<open>analyze_pitch_accuracy\<close>

text \<open>The magnitude of the error in cents on one masked frame,
  \<open>abs(1200 * log2(u / t))\<close>, and the tolerance test on it.\<close>

definition error_cents :: "real \<Rightarrow> real \<Rightarrow> npfloat" where
  "error_cents u t = nf_abs (nf_mul (Finite 1200) (nf_log2 (nf_div (Finite u) (Finite t))))"

definition within_tolerance :: "real \<Rightarrow> real \<Rightarrow> real \<Rightarrow> bool" where
  "within_tolerance tol u t = nf_less (error_cents u t) (Finite tol)"

definition analyze_pitch_accuracy ::
  "PerformanceAnalyzer \<Rightarrow> freq list \<Rightarrow> freq list \<Rightarrow> real list \<Rightarrow> error + PitchMetrics" where
  "analyze_pitch_accuracy self user_pitch target_pitch time =
     (case valid_mask user_pitch target_pitch of
        Inl e \<Rightarrow> Inl e
      | Inr vmask \<Rightarrow>
          if mask_count vmask = 0 then
            Inr \<lparr> mean_error_hz = NaN, std_error_hz = NaN, accuracy = 0, stability = 0,
                  voiced_frames = 0, total_frames = int (length user_pitch) \<rparr>
          else
            (case mask_select user_pitch vmask of
               Inl e \<Rightarrow> Inl e
             | Inr user_valid \<Rightarrow>
                 (case mask_select target_pitch vmask of
                    Inl e \<Rightarrow> Inl e
                  | Inr target_valid \<Rightarrow>
                      let pairs = zip (map the user_valid) (map the target_valid);
                          error_hz = map (\<lambda>(u, t). \<bar>u - t\<bar>) pairs;
                          hits = length (filter (\<lambda>(u, t).
                                   within_tolerance (pitch_tolerance_cents self) u t) pairs);
                          accuracy = 100 * real hits / real (length pairs);
                          variation = std error_hz / (mean error_hz + 1 / 1000000);
                          stability = 1 / (1 + variation)
                      in Inr \<lparr> mean_error_hz = Finite (mean error_hz),
                               std_error_hz = Finite (std error_hz),
                               accuracy = accuracy,
                               stability = stability,
                               voiced_frames = int (mask_count vmask),
                               total_frames = int (length user_pitch) \<rparr>)))"

subsection \<open>detect_vibrato\<close>

text \<open>
  The two SciPy routines that \<open>detect_vibrato\<close> calls are parameters of the model:
  \<open>savgol_filter x window_length polyorder\<close> (\<open>None\<close> when the call raises, which the
  source catches) and \<open>find_peaks x height\<close>. The general theorems hold for every
  choice of the two; a model of both routines follows further down and is used to run
  \<open>detect_vibrato\<close> on concrete contours.
\<close>

record signal =
  savgol_filter :: "real list \<Rightarrow> nat \<Rightarrow> nat \<Rightarrow> real list option"
  find_peaks :: "npfloat list \<Rightarrow> real \<Rightarrow> nat list"

text \<open>\<open>VibratoMetrics(detected=False)\<close> with the defaults of the dataclass.\<close>

definition not_detected :: VibratoMetrics where
  "not_detected = \<lparr> detected = False, frequency_hz = None, depth_cents = None, coverage = 0 \<rparr>"

text \<open>\<open>np.correlate(a, a, mode='full')\<close> has \<open>2 * len(a) - 1\<close> entries; the slice from
  \<open>len(autocorr) // 2\<close> keeps the lags \<open>0 .. len(a) - 1\<close>, and the entry at lag \<open>k\<close> is
  the sum of \<open>a[i + k] * a[i]\<close>.\<close>

definition autocorrelation :: "real list \<Rightarrow> real list" where
  "autocorrelation a =
     map (\<lambda>k. sum_list (map (\<lambda>(x, y). x * y) (zip (drop k a) a))) [0..<length a]"

definition np_diff :: "real list \<Rightarrow> real list" where
  "np_diff xs = map (\<lambda>(a, b). b - a) (zip xs (tl xs))"

definition np_max :: "real list \<Rightarrow> real" where
  "np_max xs = fold max (tl xs) (hd xs)"

text \<open>\<open>int(0.5 * len(residual))\<close>.\<close>

definition max_lag_of :: "real list \<Rightarrow> nat" where
  "max_lag_of residual = nat \<lfloor>0.5 * real (length residual)\<rfloor>"

text \<open>The slice \<open>autocorr[:max_lag]\<close> of the normalised autocorrelation
  \<open>autocorr / autocorr[0]\<close> in which the peaks are searched.\<close>

definition search_window :: "real list \<Rightarrow> npfloat list" where
  "search_window residual =
     (let centred = map (\<lambda>r. r - mean residual) residual;
          autocorr = autocorrelation centred;
          autocorr = map (\<lambda>c. nf_div (Finite c) (Finite (hd autocorr))) autocorr
      in take (max_lag_of residual) autocorr)"

text \<open>
  \<open>detect_vibrato\<close> is written in two parts. The second part, \<open>vibrato_gates\<close>, is the
  body of the function from the line \<open>max_lag = int(0.5 * len(residual))\<close> to its end:
  it reads the voiced time stamps, the smoothed contour and the residual, and raises
  nothing.
\<close>

definition vibrato_gates ::
  "signal \<Rightarrow> PerformanceAnalyzer \<Rightarrow> real list \<Rightarrow> real list \<Rightarrow> real list \<Rightarrow> VibratoMetrics" where
  "vibrato_gates sig self valid_time smoothed residual =
     (let max_lag = max_lag_of residual
      in if max_lag < 10 then not_detected
         else
           let peaks = find_peaks sig (search_window residual) 0.3
           in if length peaks = 0 then not_detected
              else
                let best_lag = hd peaks;
                    sr = nf_div (Finite 1) (Finite (mean (np_diff valid_time)));
                    vibrato_freq = nf_div sr (Finite (real best_lag))
                in if \<not> (nf_le (Finite (fst (vibrato_freq_range self))) vibrato_freq
                         \<and> nf_le vibrato_freq (Finite (snd (vibrato_freq_range self))))
                   then not_detected
                   else
                     let vibrato_depth =
                           nf_mul (Finite 1200)
                             (nf_log2 (nf_div (Finite (np_max residual))
                                              (Finite (mean smoothed))))
                     in if nf_less (nf_abs vibrato_depth) (Finite (min_vibrato_depth self))
                        then not_detected
                        else
                          let residual_std = std residual;
                              coverage =
                                100 * real (length (filter (\<lambda>r. \<bar>r\<bar> > residual_std) residual))
                                  / real (length residual)
                          in \<lparr> detected = True,
                               frequency_hz = Some vibrato_freq,
                               depth_cents = Some (nf_abs vibrato_depth),
                               coverage = coverage \<rparr>)"

text \<open>
  The first part masks the voiced frames and smooths them. The smoothing filter returns an
  array of the shape of its input; the model checks the length before the subtraction
  \<open>valid_pitch - smoothed\<close>, which NumPy refuses on arrays of different lengths.
\<close>

definition detect_vibrato ::
  "signal \<Rightarrow> PerformanceAnalyzer \<Rightarrow> freq list \<Rightarrow> real list \<Rightarrow> error + VibratoMetrics" where
  "detect_vibrato sig self pitch time =
     (let vmask = map (\<lambda>x. \<not> isnan x) pitch in
      if mask_count vmask < 100 then Inr not_detected
      else
        (case mask_select pitch vmask of
           Inl e \<Rightarrow> Inl e
         | Inr voiced \<Rightarrow>
        (case mask_select time vmask of
           Inl e \<Rightarrow> Inl e
         | Inr valid_time \<Rightarrow>
             let valid_pitch = map the voiced;
                 smoothed =
                   (case savgol_filter sig valid_pitch
                           (min 51 (length valid_pitch div 2 * 2 + 1)) 3 of
                      Some s \<Rightarrow> s
                    | None \<Rightarrow> valid_pitch)
             in if length smoothed \<noteq> length valid_pitch then Inl BroadcastError
                else
                  let residual = map (\<lambda>(p, s). p - s) (zip valid_pitch smoothed)
                  in Inr (vibrato_gates sig self valid_time smoothed residual))))"

subsection \<open>generate_report\<close>


section \<open>karaoke_app.py: \_align\_pitch\<close>







section \<open>Notions used in the statements\<close>

text \<open>The frames on which both contours carry a value, as pairs of values.\<close>

definition masked_pairs :: "freq list \<Rightarrow> freq list \<Rightarrow> (real \<times> real) list" where
  "masked_pairs u t =
     map (\<lambda>(a, b). (the a, the b)) (filter (\<lambda>(a, b). a \<noteq> None \<and> b \<noteq> None) (zip u t))"

text \<open>
  The quick score as the spec words it: the indices at which both values are present,
  the mean absolute error in Hz over them, and \<open>100 - 0.5 * meanError\<close> clamped to
  \<open>[0, 100]\<close>, with \<open>0\<close> when no frame is left.
\<close>

definition present_frames :: "freq list \<Rightarrow> freq list \<Rightarrow> nat set" where
  "present_frames u t = {i \<in> {0..<length u}. u ! i \<noteq> None \<and> t ! i \<noteq> None}"

definition mean_abs_error :: "freq list \<Rightarrow> freq list \<Rightarrow> real" where
  "mean_abs_error u t =
     (\<Sum>i\<in>present_frames u t. \<bar>the (u ! i) - the (t ! i)\<bar>) / real (card (present_frames u t))"

definition quick_score_spec :: "freq list \<Rightarrow> freq list \<Rightarrow> real" where
  "quick_score_spec u t =
     (if present_frames u t = {} then 0
      else max 0 (min 100 (100 - 0.5 * mean_abs_error u t)))"

text \<open>
  The intermediate arrays of \<open>detect_vibrato\<close>: the voiced values with their time
  stamps, the smoothed contour (the input itself when the filter raises) and the residual.
\<close>

definition voiced_values :: "freq list \<Rightarrow> real list" where
  "voiced_values pitch = map the (filter (\<lambda>x. x \<noteq> None) pitch)"

definition voiced_times :: "freq list \<Rightarrow> real list \<Rightarrow> real list" where
  "voiced_times pitch time = map snd (filter (\<lambda>(x, t). x \<noteq> None) (zip pitch time))"

definition smoothed_values :: "signal \<Rightarrow> real list \<Rightarrow> real list" where
  "smoothed_values sig valid_pitch =
     (case savgol_filter sig valid_pitch (min 51 (length valid_pitch div 2 * 2 + 1)) 3 of
        Some s \<Rightarrow> s
      | None \<Rightarrow> valid_pitch)"

definition residual_values :: "signal \<Rightarrow> real list \<Rightarrow> real list" where
  "residual_values sig valid_pitch =
     map (\<lambda>(p, s). p - s) (zip valid_pitch (smoothed_values sig valid_pitch))"





section \<open>A model of the two SciPy routines\<close>

subsection \<open>savgol\_filter with polyorder 3 and mode 'interp'\<close>

text \<open>
  \<open>scipy.signal.savgol_filter(x, window_length, polyorder=3)\<close> in its default mode
  \<open>'interp'\<close>: every output sample is the value of the least-squares cubic through
  \<open>window_length\<close> consecutive input samples. The window is centred on the sample,
  except within half a window of either end, where the cubic through the first (last)
  \<open>window_length\<close> samples is evaluated. The least-squares cubic on the grid
  \<open>-m .. m\<close> is written with the Gram polynomials, which are orthogonal on that grid.
  The call raises when the window is longer than the input or not longer than the order.
\<close>

definition gram :: "nat \<Rightarrow> nat \<Rightarrow> real \<Rightarrow> real" where
  "gram m k s =
     (if k = 0 then 1
      else if k = 1 then s
      else if k = 2 then s ^ 2 - real (m * (m + 1)) / 3
      else s ^ 3 - real (3 * m ^ 2 + 3 * m - 1) / 5 * s)"

definition grid :: "nat \<Rightarrow> real list" where
  "grid m = map (\<lambda>j. real j - real m) [0..<2 * m + 1]"

definition dot :: "real list \<Rightarrow> real list \<Rightarrow> real" where
  "dot xs ys = sum_list (map (\<lambda>(x, y). x * y) (zip xs ys))"

text \<open>The coefficients of the least-squares cubic through a window of \<open>2 * m + 1\<close>
  samples in the Gram basis, and its value at the offset \<open>s\<close> from the centre.\<close>

definition cubic_coeffs :: "nat \<Rightarrow> real list \<Rightarrow> real list" where
  "cubic_coeffs m win =
     map (\<lambda>k. dot (map (gram m k) (grid m)) win
               / dot (map (gram m k) (grid m)) (map (gram m k) (grid m))) [0..<4]"

definition cubic_value :: "nat \<Rightarrow> real list \<Rightarrow> real \<Rightarrow> real" where
  "cubic_value m cs s = dot cs (map (\<lambda>k. gram m k s) [0..<4])"

definition savgol_cubic :: "real list \<Rightarrow> nat \<Rightarrow> real list option" where
  "savgol_cubic x window_length =
     (if window_length \<le> 3 \<or> even window_length \<or> length x < window_length then None
      else
        let m = window_length div 2 in
        Some (map (\<lambda>i. let c = min (max i m) (length x - 1 - m)
                        in cubic_value m (cubic_coeffs m (take window_length (drop (c - m) x)))
                             (real i - real c))
                  [0..<length x]))"

subsection \<open>find\_peaks with a minimal height\<close>

text \<open>
  \<open>scipy.signal.find_peaks(x, height=h)\<close>: the local maxima of \<open>x\<close>, then those of
  height at least \<open>h\<close>. A local maximum is a sample, or the middle of a plateau of equal
  samples, that is strictly higher than both its neighbours; the first and the last sample
  are never one. The scan is the loop of the library: from index \<open>i\<close> with a rising left
  flank, \<open>plateau_end\<close> walks to the end of the plateau.
\<close>

function plateau_end :: "npfloat list \<Rightarrow> nat \<Rightarrow> nat \<Rightarrow> nat" where
  "plateau_end x i i_ahead =
     (if i_ahead < length x - 1 \<and> nf_eq (x ! i_ahead) (x ! i)
      then plateau_end x i (i_ahead + 1) else i_ahead)"
  by pat_completeness auto
termination
  by (relation "measure (\<lambda>(x, i, i_ahead). length x - i_ahead)") auto

declare plateau_end.simps [simp del]

function local_maxima :: "npfloat list \<Rightarrow> nat \<Rightarrow> nat list" where
  "local_maxima x i =
     (if i < length x - 1 then
        (if nf_less (x ! (i - 1)) (x ! i) then
           (let i_ahead = plateau_end x i (i + 1) in
            if nf_less (x ! i_ahead) (x ! i)
            then (i + (i_ahead - 1)) div 2 # local_maxima x (i_ahead + 1)
            else local_maxima x (i + 1))
         else local_maxima x (i + 1))
      else [])"
  by pat_completeness auto
termination
proof (relation "measure (\<lambda>(x, i). length x - i)")
  have ge: "j \<le> plateau_end x i j" for x i j
  proof (induction x i j rule: plateau_end.induct)
    case (1 x i i_ahead)
    then show ?case
      by (subst plateau_end.simps) (auto simp: Suc_leD)
  qed
  fix x :: "npfloat list" and i xa :: nat
  assume "i < length x - 1" and "xa = plateau_end x i (i + 1)"
  with ge [of "i + 1" x i]
  show "((x, xa + 1), (x, i)) \<in> measure (\<lambda>(x, i). length x - i)"
    by simp
qed auto

declare local_maxima.simps [simp del]

definition find_peaks_height :: "npfloat list \<Rightarrow> real \<Rightarrow> nat list" where
  "find_peaks_height x h = filter (\<lambda>p. nf_le (Finite h) (x ! p)) (local_maxima x 1)"

text \<open>The two routines as \<open>detect_vibrato\<close> calls them; the source passes
  \<open>polyorder=3\<close> only.\<close>

definition scipy_signal :: signal where
  "scipy_signal =
     \<lparr> savgol_filter = (\<lambda>x window_length polyorder.
                           if polyorder = 3 then savgol_cubic x window_length else None),
       find_peaks = find_peaks_height \<rparr>"

section \<open>Two test contours for the vibrato detector\<close>

text \<open>
  A note of 300 Hz with a triangular vibrato of period 16 frames, 100 frames long, and
  the same contour with the sign of every value changed. The frames are 10 ms apart
  (\<open>frame_times\<close>) or 50 ms apart (\<open>slow_times\<close>). \<open>gram_row\<close>, \<open>wave_window\<close> and
  \<open>acf\<close> name intermediate values of the filter and of the autocorrelation; the three
  integer lists hold intermediate results of the run on the first contour, scaled to
  integers: the smoothed contour times 25827165, the zero-mean residual times 51654330, and
  the autocorrelation sums of the latter for the lags 0 to 17.
\<close>

definition triangle :: "nat \<Rightarrow> real" where
  "triangle i = (let k = i mod 16 in if k < 8 then real k - 4 else 12 - real k)"

definition vibrato_values :: "real list" where
  "vibrato_values = map (\<lambda>i. 300 + 3 * triangle i) [0..<100]"

definition vibrato_contour :: "freq list" where
  "vibrato_contour = map Some vibrato_values"

definition negative_contour :: "freq list" where
  "negative_contour = map (\<lambda>v. Some (- v)) vibrato_values"

definition frame_times :: "real list" where
  "frame_times = map (\<lambda>i. real i / 100) [0..<100]"

definition slow_times :: "real list" where
  "slow_times = map (\<lambda>i. real i / 20) [0..<100]"

definition slow_analyzer :: PerformanceAnalyzer where
  "slow_analyzer =
     \<lparr> pitch_tolerance_cents = 100, vibrato_freq_range = (1, 2), min_vibrato_depth = 30 \<rparr>"

definition gram_row :: "nat \<Rightarrow> real list" where
  "gram_row k = map (gram 25 k) (grid 25)"

definition wave_window :: "nat \<Rightarrow> real list" where
  "wave_window r = map (\<lambda>i. 300 + 3 * triangle (i + r)) [0..<51]"

definition acf :: "real list \<Rightarrow> nat \<Rightarrow> real" where
  "acf r j =
     (let centred = map (\<lambda>x. x - mean r) r
      in sum_list (map (\<lambda>(x, y). x * y) (zip (drop j centred) centred)))"

definition smoothed_scaled :: "int list" where
  "smoothed_scaled =
     [7684321120, 7689683827, 7695076822, 7700480456, 7705875080, 7711241045, 7716558702,
      7721808402, 7726970496, 7732025335, 7736953270, 7741734652, 7746349832, 7750779161,
      7755002990, 7759001670, 7762755552, 7766244987, 7769450326, 7772351920, 7774930120,
      7777165277, 7779037742, 7780527866, 7781616000, 7782282495, 7772308830, 7760650365,
      7748149500, 7735648635, 7723990170, 7714016505, 7710697800, 7714016505, 7723990170,
      7735648635, 7748149500, 7760650365, 7772308830, 7782282495, 7785601200, 7782282495,
      7772308830, 7760650365, 7748149500, 7735648635, 7723990170, 7714016505, 7710697800,
      7714016505, 7723990170, 7735648635, 7748149500, 7760650365, 7772308830, 7782282495,
      7785601200, 7782282495, 7772308830, 7760650365, 7748149500, 7735648635, 7723990170,
      7714016505, 7710697800, 7714016505, 7723990170, 7735648635, 7748149500, 7760650365,
      7772308830, 7782282495, 7785601200, 7782282495, 7772308830, 7773394905, 7774128944,
      7774466063, 7774361378, 7773770005, 7772647060, 7770947659, 7768626918, 7765639953,
      7761941880, 7757487815, 7752232874, 7746132173, 7739140828, 7731213955, 7722306670,
      7712374089, 7701371328, 7689253503, 7675975730, 7661493125, 7645760804, 7628733883,
      7610367478, 7590616705]"

definition vibrato_smoothed :: "real list" where
  "vibrato_smoothed = map (\<lambda>z. real_of_int z / 25827165) smoothed_scaled"

definition vibrato_residual :: "real list" where
  "vibrato_residual = map (\<lambda>(p, s). p - s) (zip vibrato_values vibrato_smoothed)"

definition centred_scaled :: "int list" where
  "centred_scaled =
     [- 491435987, - 347198411, - 203021411, - 58865689, 85308053, 229539113, 373866789,
      518330379, 662969181, 497896513, 333077653, 168551899, 4358549, - 159463099,
      - 322873747, - 485834097, - 648304851, - 500320731, - 351768419, - 202608617,
      - 52802027, 97690649, 248908709, 400891451, 553678173, 397382193, 262366533,
      130720473, 759213, - 129202047, - 260848107, - 395863767, - 544189347, - 395863767,
      - 260848107, - 129202047, 759213, 130720473, 262366533, 397382193, 545707773,
      397382193, 262366533, 130720473, 759213, - 129202047, - 260848107, - 395863767,
      - 544189347, - 395863767, - 260848107, - 129202047, 759213, 130720473, 262366533,
      397382193, 545707773, 397382193, 262366533, 130720473, 759213, - 129202047,
      - 260848107, - 395863767, - 544189347, - 395863767, - 260848107, - 129202047,
      759213, 130720473, 262366533, 397382193, 545707773, 397382193, 262366533,
      105231393, - 51199675, - 206836903, - 361590523, - 515370767, - 668087867,
      - 509726075, - 350121603, - 189184683, - 26825547, 137045573, 302518445, 469682837,
      638628517, 499519273, 362370853, 227273025, 94315557, - 36411783, - 164819227,
      - 290817007, - 414315355, - 225298523, - 33602723, 160861813]"

definition lag_sums :: "int list" where
  "lag_sums =
     [11225580599344608900, 10039327524707951691, 7433676798316427682,
      3938716280247697737, 81101265375423386, - 3728874164899669247,
      - 7031545720689544092, - 9362161298515182249, - 10252788244914069744,
      - 9182569023678742317, - 6838272189971505474, - 3700958153226967695,
      - 247964519027708730, 3159834221730485585, 6112169544389370280,
      8193535712577586719, 8984909165310057612, 8013856251312827619]"

section \<open>Masks and masked frames\<close>

lemma valid_mask_same_length:
  "length u = length t \<Longrightarrow>
   valid_mask u t = Inr (map (\<lambda>(a, b). a \<noteq> None \<and> b \<noteq> None) (zip u t))"
  by (simp add: valid_mask_def mask_and_def isnan_def zip_map_map case_prod_unfold)

lemma selected_pairs:
  "length u = length t \<Longrightarrow>
   zip (map the (map fst (filter snd (zip u (map (\<lambda>(a, b). a \<noteq> None \<and> b \<noteq> None) (zip u t))))))
       (map the (map fst (filter snd (zip t (map (\<lambda>(a, b). a \<noteq> None \<and> b \<noteq> None) (zip u t))))))
   = masked_pairs u t"
  by (induction u t rule: list_induct2) (auto simp: masked_pairs_def)

lemma mask_count_pairs:
  "length u = length t \<Longrightarrow>
   mask_count (map (\<lambda>(a, b). a \<noteq> None \<and> b \<noteq> None) (zip u t)) = length (masked_pairs u t)"
  by (induction u t rule: list_induct2) (auto simp: masked_pairs_def mask_count_def)

lemma masked_parts:
  assumes "length u = length t"
  obtains M U T where "valid_mask u t = Inr M" "mask_select u M = Inr U" "mask_select t M = Inr T"
    "zip (map the U) (map the T) = masked_pairs u t" "mask_count M = length (masked_pairs u t)"
proof -
  define M where "M = map (\<lambda>(a, b). a \<noteq> None \<and> b \<noteq> None) (zip u t)"
  define U where "U = map fst (filter snd (zip u M))"
  define T where "T = map fst (filter snd (zip t M))"
  have "valid_mask u t = Inr M"
    using assms by (simp add: M_def valid_mask_same_length)
  moreover have "mask_select u M = Inr U" "mask_select t M = Inr T"
    using assms by (simp_all add: mask_select_def U_def T_def M_def)
  moreover have "zip (map the U) (map the T) = masked_pairs u t"
    unfolding U_def T_def M_def by (rule selected_pairs [OF assms])
  moreover have "mask_count M = length (masked_pairs u t)"
    unfolding M_def by (rule mask_count_pairs [OF assms])
  ultimately show thesis by (rule that)
qed

lemma masked_pairs_empty_iff:
  assumes "length u = length t"
  shows "masked_pairs u t = [] \<longleftrightarrow> (\<forall>i<length u. u ! i = None \<or> t ! i = None)"
proof -
  have "masked_pairs u t = [] \<longleftrightarrow> (\<forall>p \<in> set (zip u t). fst p = None \<or> snd p = None)"
    by (auto simp: masked_pairs_def filter_empty_conv)
  also have "\<dots> \<longleftrightarrow> (\<forall>i<length u. u ! i = None \<or> t ! i = None)"
    using assms by (fastforce simp: set_zip)
  finally show ?thesis .
qed

text \<open>On contours of equal length the analysis never raises; its result is the degenerate
  record or the computed one.\<close>

lemma analyze_same_length:
  assumes "length u = length t"
  shows "analyze_pitch_accuracy self u t time =
     (if masked_pairs u t = [] then
        Inr \<lparr> mean_error_hz = NaN, std_error_hz = NaN, accuracy = 0, stability = 0,
              voiced_frames = 0, total_frames = int (length u) \<rparr>
      else
        Inr \<lparr> mean_error_hz = Finite (mean (map (\<lambda>(u, t). \<bar>u - t\<bar>) (masked_pairs u t))),
              std_error_hz = Finite (std (map (\<lambda>(u, t). \<bar>u - t\<bar>) (masked_pairs u t))),
              accuracy = 100 * real (length (filter (\<lambda>(u, t).
                             within_tolerance (pitch_tolerance_cents self) u t) (masked_pairs u t)))
                          / real (length (masked_pairs u t)),
              stability = 1 / (1 + std (map (\<lambda>(u, t). \<bar>u - t\<bar>) (masked_pairs u t))
                                   / (mean (map (\<lambda>(u, t). \<bar>u - t\<bar>) (masked_pairs u t)) + 1 / 1000000)),
              voiced_frames = int (length (masked_pairs u t)),
              total_frames = int (length u) \<rparr>)"
proof -
  obtain M U T where p: "valid_mask u t = Inr M" "mask_select u M = Inr U" "mask_select t M = Inr T"
    "zip (map the U) (map the T) = masked_pairs u t" "mask_count M = length (masked_pairs u t)"
    using masked_parts [OF assms] by blast
  show ?thesis
    by (simp add: analyze_pitch_accuracy_def p Let_def)
qed

lemma score_same_length:
  assumes "length u = length t"
  shows "score_pitch u t =
     (if masked_pairs u t = [] then Inr 0
      else Inr (py_max 0 (py_min 100 (100 - mean (map (\<lambda>(u, t). \<bar>u - t\<bar>) (masked_pairs u t)) * 0.5))))"
proof -
  obtain M U T where p: "valid_mask u t = Inr M" "mask_select u M = Inr U" "mask_select t M = Inr T"
    "zip (map the U) (map the T) = masked_pairs u t" "mask_count M = length (masked_pairs u t)"
    using masked_parts [OF assms] by blast
  show ?thesis
    using assms by (simp add: score_pitch_def p Let_def)
qed

section \<open>Ranges of the metrics, and when the analysis returns\<close>









lemma select_voiced:
  "map the (map fst (filter snd (zip pitch (map (\<lambda>x. \<not> isnan x) pitch)))) = voiced_values pitch"
  by (induction pitch) (auto simp: voiced_values_def isnan_def)

lemma select_times:
  "length time = length pitch \<Longrightarrow>
   map fst (filter snd (zip time (map (\<lambda>x. \<not> isnan x) pitch))) = voiced_times pitch time"
  by (induction time pitch rule: list_induct2) (auto simp: voiced_times_def isnan_def)

lemma count_voiced:
  "mask_count (map (\<lambda>x. \<not> isnan x) pitch) = length (voiced_values pitch)"
  by (induction pitch) (auto simp: voiced_values_def isnan_def mask_count_def)

lemma detect_vibrato_same_length:
  assumes "length time = length pitch"
  shows "detect_vibrato sig self pitch time =
     (if length (voiced_values pitch) < 100 then Inr not_detected
      else if length (smoothed_values sig (voiced_values pitch)) \<noteq> length (voiced_values pitch)
      then Inl BroadcastError
      else Inr (vibrato_gates sig self (voiced_times pitch time)
                  (smoothed_values sig (voiced_values pitch))
                  (residual_values sig (voiced_values pitch))))"
proof -
  define vm where "vm = map (\<lambda>x. \<not> isnan x) pitch"
  have 1: "mask_select pitch vm = Inr (map fst (filter snd (zip pitch vm)))"
    by (simp add: mask_select_def vm_def)
  have 2: "mask_select time vm = Inr (voiced_times pitch time)"
    using assms by (simp add: mask_select_def vm_def select_times)
  have 3: "map the (map fst (filter snd (zip pitch vm))) = voiced_values pitch"
    unfolding vm_def by (rule select_voiced)
  have 4: "mask_count vm = length (voiced_values pitch)"
    unfolding vm_def by (rule count_voiced)
  have "detect_vibrato sig self pitch time =
     (if mask_count vm < 100 then Inr not_detected
      else if length (smoothed_values sig (map the (map fst (filter snd (zip pitch vm)))))
              \<noteq> length (map the (map fst (filter snd (zip pitch vm))))
      then Inl BroadcastError
      else Inr (vibrato_gates sig self (voiced_times pitch time)
                  (smoothed_values sig (map the (map fst (filter snd (zip pitch vm)))))
                  (residual_values sig (map the (map fst (filter snd (zip pitch vm)))))))"
    unfolding detect_vibrato_def Let_def vm_def [symmetric] 1 2 sum.case
      smoothed_values_def residual_values_def
    by (rule refl)
  then show ?thesis unfolding 3 4 .
qed





section \<open>Alignment\<close>


lemma strict_sorted_nth_less:
  "sorted_wrt (<) xs \<Longrightarrow> i < j \<Longrightarrow> j < length xs \<Longrightarrow> xs ! i < (xs ! j :: real)"
  by (simp add: sorted_wrt_iff_nth_less)














section \<open>The vibrato detector\<close>

subsection \<open>The run of the filter on the test contour\<close>

lemma triangle_period: "triangle (i + j) = triangle (i + j mod 16)"
  by (simp add: triangle_def mod_add_right_eq)

lemma window_of_values:
  assumes "j \<le> 49"
  shows "take 51 (drop j vibrato_values) = wave_window (j mod 16)"
proof -
  have "take 51 (drop j [0..<100]) = [j..<j + 51]"
    using assms by (simp add: drop_upt take_upt add.commute)
  also have "\<dots> = map (\<lambda>i. i + j) [0..<51]"
    by (simp add: map_add_upt add.commute)
  finally have "take 51 (drop j vibrato_values)
      = map (\<lambda>i. 300 + 3 * triangle (i + j)) [0..<51]"
    by (simp add: vibrato_values_def take_map drop_map comp_def)
  then show ?thesis
    unfolding wave_window_def using triangle_period by presburger
qed

lemma upt_from_2: "2 \<le> n \<Longrightarrow> [0..<n] = 0 # Suc 0 # [2..<n]"
  by (simp add: upt_rec numeral_2_eq_2)

lemma upt_numeral:
  "[numeral m..<numeral n] =
     (if (numeral m :: nat) < numeral n then numeral m # [Suc (numeral m)..<numeral n] else [])"
  by (rule upt_rec)

lemma gram_rows:
  "gram_row 0 = map (\<lambda>s. 1) (grid 25)"
  "gram_row (Suc 0) = grid 25"
  "gram_row 2 =
      [1225 / 3, 1078 / 3, 937 / 3, 802 / 3, 673 / 3, 550 / 3, 433 / 3, 322 / 3, 217 / 3,
       118 / 3, 25 / 3, - (62 / 3), - (143 / 3), - (218 / 3), - (287 / 3), - (350 / 3),
       - (407 / 3), - (458 / 3), - (503 / 3), - (542 / 3), - (575 / 3), - (602 / 3),
       - (623 / 3), - (638 / 3), - (647 / 3), - (650 / 3), - (647 / 3), - (638 / 3),
       - (623 / 3), - (602 / 3), - (575 / 3), - (542 / 3), - (503 / 3), - (458 / 3),
       - (407 / 3), - (350 / 3), - (287 / 3), - (218 / 3), - (143 / 3), - (62 / 3),
       25 / 3, 118 / 3, 217 / 3, 322 / 3, 433 / 3, 550 / 3, 673 / 3, 802 / 3, 937 / 3,
       1078 / 3, 1225 / 3]"
  "gram_row 3 =
      [- 5880, - (22344 / 5), - (16008 / 5), - (10362 / 5), - (5376 / 5), - 204,
       2736 / 5, 5922 / 5, 8568 / 5, 10704 / 5, 2472, 13566 / 5, 14352 / 5, 14748 / 5,
       14784 / 5, 2898, 13896 / 5, 13032 / 5, 11928 / 5, 10614 / 5, 1824, 7476 / 5,
       5712 / 5, 3858 / 5, 1944 / 5, 0, - (1944 / 5), - (3858 / 5), - (5712 / 5),
       - (7476 / 5), - 1824, - (10614 / 5), - (11928 / 5), - (13032 / 5), - (13896 / 5),
       - 2898, - (14784 / 5), - (14748 / 5), - (14352 / 5), - (13566 / 5), - 2472,
       - (10704 / 5), - (8568 / 5), - (5922 / 5), - (2736 / 5), 204, 5376 / 5, 10362 / 5,
       16008 / 5, 22344 / 5, 5880]"
  by (simp_all add: gram_row_def grid_def gram_def upt_from_2 upt_numeral)

lemma cubic_coeffs_25:
  "cubic_coeffs 25 win =
     [dot (gram_row 0) win / 51, dot (gram_row 1) win / 11050,
      dot (gram_row 2) win * 3 / 5739370, dot (gram_row 3) win / 318781008]"
proof -
  have n: "dot (gram_row 0) (gram_row 0) = 51"
    "dot (gram_row (Suc 0)) (gram_row (Suc 0)) = 11050"
    "dot (gram_row 2) (gram_row 2) = 5739370 / 3" "dot (gram_row 3) (gram_row 3) = 318781008"
    by (simp_all add: gram_rows dot_def grid_def upt_from_2 upt_numeral)
  have "cubic_coeffs 25 win =
      map (\<lambda>k. dot (gram_row k) win / dot (gram_row k) (gram_row k)) [0, 1, 2, 3]"
    by (simp add: cubic_coeffs_def gram_row_def upt_rec numeral_2_eq_2 numeral_3_eq_3)
  then show ?thesis by (simp add: n)
qed

lemma window_coeffs:
  "cubic_coeffs 25 (wave_window 0) = [5091 / 17, - (177 / 5525), - (24516 / 2869685), - (401 / 3162510)]"
  "cubic_coeffs 25 (wave_window (Suc 0)) = [5094 / 17, - (21 / 325), - (17064 / 2869685), - (458 / 1581255)]"
  "cubic_coeffs 25 (wave_window 2) = [5097 / 17, - (93 / 1105), - (8748 / 2869685), - (131 / 340578)]"
  "cubic_coeffs 25 (wave_window 3) = [300, - (501 / 5525), 0, - (4603 / 11068785)]"
  "cubic_coeffs 25 (wave_window 4) = [5103 / 17, - (93 / 1105), 8748 / 2869685, - (131 / 340578)]"
  "cubic_coeffs 25 (wave_window 5) = [5106 / 17, - (21 / 325), 17064 / 2869685, - (458 / 1581255)]"
  "cubic_coeffs 25 (wave_window 6) = [5109 / 17, - (177 / 5525), 24516 / 2869685, - (401 / 3162510)]"
  "cubic_coeffs 25 (wave_window 7) = [5110 / 17, 0, 26997 / 2869685, 0]"
  "cubic_coeffs 25 (wave_window 8) = [5109 / 17, 177 / 5525, 24516 / 2869685, 401 / 3162510]"
  "cubic_coeffs 25 (wave_window 9) = [5106 / 17, 21 / 325, 17064 / 2869685, 458 / 1581255]"
  "cubic_coeffs 25 (wave_window 10) = [5103 / 17, 93 / 1105, 8748 / 2869685, 131 / 340578]"
  "cubic_coeffs 25 (wave_window 11) = [300, 501 / 5525, 0, 4603 / 11068785]"
  "cubic_coeffs 25 (wave_window 12) = [5097 / 17, 93 / 1105, - (8748 / 2869685), 131 / 340578]"
  "cubic_coeffs 25 (wave_window 13) = [5094 / 17, 21 / 325, - (17064 / 2869685), 458 / 1581255]"
  "cubic_coeffs 25 (wave_window 14) = [5091 / 17, 177 / 5525, - (24516 / 2869685), 401 / 3162510]"
  "cubic_coeffs 25 (wave_window 15) = [5090 / 17, 0, - (26997 / 2869685), 0]"
  by (simp_all add: cubic_coeffs_25 gram_rows grid_def wave_window_def triangle_def dot_def
      upt_from_2 upt_numeral)

lemma vibrato_values_length: "length vibrato_values = 100"
  by (simp add: vibrato_values_def)

lemma first_window: "take 51 vibrato_values = wave_window 0"
  using window_of_values [of 0] by simp

lemma last_window: "drop 49 vibrato_values = wave_window (Suc 0)"
  using window_of_values [of 49] by (simp add: vibrato_values_length)

lemma take_wave_window: "take 51 (wave_window r) = wave_window r"
  by (simp add: wave_window_def)

lemma cubic_value_4:
  "cubic_value m [a, b, c, d] s =
     a * gram m 0 s + b * gram m 1 s + c * gram m 2 s + d * gram m 3 s"
  by (simp add: cubic_value_def dot_def upt_rec numeral_2_eq_2 numeral_3_eq_3)

lemma savgol_vibrato: "savgol_cubic vibrato_values 51 = Some vibrato_smoothed"
  by (simp add: savgol_cubic_def vibrato_values_length Let_def upt_from_2 upt_numeral
      window_of_values
      first_window last_window take_wave_window window_coeffs cubic_value_4 gram_def
      vibrato_smoothed_def smoothed_scaled_def)

lemma centred_vibrato:
  "map (\<lambda>x. x - mean vibrato_residual) vibrato_residual
     = map (\<lambda>z. real_of_int z / 51654330) centred_scaled"
  by (simp add: vibrato_residual_def vibrato_values_def upt_from_2 upt_numeral
      vibrato_smoothed_def smoothed_scaled_def centred_scaled_def mean_def triangle_def)

lemma lag_sums_eq:
  "map (\<lambda>j. sum_list (map (\<lambda>(x, y). x * y) (zip (drop j centred_scaled) centred_scaled)))
       [0..<18] = lag_sums"
  by (simp add: centred_scaled_def lag_sums_def upt_from_2 upt_numeral)

subsection \<open>The search window and its first peak\<close>

lemma sum_list_scaled:
  "sum_list (map (\<lambda>p. real_of_int (f p) / c) ps) = real_of_int (sum_list (map f ps)) / c"
  by (induction ps) (simp_all add: add_divide_distrib)

lemma acf_scaled:
  assumes "map (\<lambda>x. x - mean r) r = map (\<lambda>z. real_of_int z / d) zs"
  shows "acf r j
     = real_of_int (sum_list (map (\<lambda>(x, y). x * y) (zip (drop j zs) zs))) / (d * d)"
proof -
  have "acf r j = sum_list (map (\<lambda>(x, y). x * y)
          (zip (drop j (map (\<lambda>z. real_of_int z / d) zs)) (map (\<lambda>z. real_of_int z / d) zs)))"
    by (simp only: acf_def Let_def assms)
  also have "\<dots> = sum_list (map (\<lambda>p. real_of_int (fst p * snd p) / (d * d)) (zip (drop j zs) zs))"
    by (simp add: drop_map zip_map_map case_prod_unfold comp_def)
  also have "\<dots> = real_of_int (sum_list (map (\<lambda>p. fst p * snd p) (zip (drop j zs) zs))) / (d * d)"
    by (rule sum_list_scaled)
  finally show ?thesis by (simp add: case_prod_unfold)
qed

lemma max_lag_half: "max_lag_of r = length r div 2"
proof -
  have "\<lfloor>real (length r) / real 2\<rfloor> = int (length r div 2)"
    by (rule floor_divide_of_nat_eq)
  then show ?thesis by (simp add: max_lag_of_def)
qed

lemma search_window_length: "length (search_window r) = length r div 2"
  by (simp add: search_window_def Let_def max_lag_half autocorrelation_def)

lemma search_window_take:
  assumes "k \<le> length r div 2" and "r \<noteq> []"
  shows "take k (search_window r)
           = map (\<lambda>j. nf_div (Finite (acf r j)) (Finite (acf r 0))) [0..<k]"
proof -
  let ?c = "map (\<lambda>x. x - mean r) r"
  have ac: "autocorrelation ?c = map (acf r) [0..<length r]"
    by (simp add: autocorrelation_def acf_def Let_def)
  have "0 < length r" using assms(2) by simp
  then have hd: "hd (map (acf r) [0..<length r]) = acf r 0"
    by (simp add: hd_map upt_conv_Cons)
  have sw: "search_window r = take (length r div 2)
        (map (\<lambda>c. nf_div (Finite c) (Finite (acf r 0))) (map (acf r) [0..<length r]))"
    unfolding search_window_def Let_def max_lag_half ac hd by (rule refl)
  have "take k (search_window r)
      = take k (map (\<lambda>c. nf_div (Finite c) (Finite (acf r 0))) (map (acf r) [0..<length r]))"
    unfolding sw using assms(1) by (simp only: take_take min.absorb1)
  also have "\<dots> = map (\<lambda>j. nf_div (Finite (acf r j)) (Finite (acf r 0))) (take k [0..<length r])"
    by (simp only: take_map map_map comp_def)
  also have "take k [0..<length r] = [0..<k]"
    using assms(1) by (simp add: take_upt)
  finally show ?thesis .
qed

lemma vibrato_residual_length: "length vibrato_residual = 100"
  by (simp add: vibrato_residual_def vibrato_values_length vibrato_smoothed_def
      smoothed_scaled_def)

lemma vibrato_window_prefix:
  "take 18 (search_window vibrato_residual)
     = map (\<lambda>s. Finite (real_of_int s / 11225580599344608900)) lag_sums"
proof -
  let ?isum = "\<lambda>j. sum_list (map (\<lambda>(x, y). x * y) (zip (drop j centred_scaled) centred_scaled))"
  have a: "acf vibrato_residual j = real_of_int (?isum j) / (51654330 * 51654330)" for j
    by (rule acf_scaled [OF centred_vibrato])
  have z: "sum_list (map (\<lambda>(x, y). x * y) (zip centred_scaled centred_scaled))
      = 11225580599344608900"
    using arg_cong [OF lag_sums_eq, of hd] by (simp add: lag_sums_def upt_from_2)
  have "take 18 (search_window vibrato_residual)
      = map (\<lambda>j. nf_div (Finite (acf vibrato_residual j)) (Finite (acf vibrato_residual 0)))
          [0..<18]"
  proof (rule search_window_take)
    show "18 \<le> length vibrato_residual div 2" by (simp add: vibrato_residual_length)
    show "vibrato_residual \<noteq> []" using vibrato_residual_length by auto
  qed
  also have "\<dots> = map (\<lambda>j. Finite (real_of_int (?isum j) / 11225580599344608900)) [0..<18]"
    by (simp add: a z)
  also have "\<dots> = map (\<lambda>s. Finite (real_of_int s / 11225580599344608900)) (map ?isum [0..<18])"
    by (simp add: comp_def)
  finally show ?thesis by (simp only: lag_sums_eq)
qed


lemma nf_less_not_eq: "nf_less a b \<Longrightarrow> \<not> nf_eq a b"
  by (cases a; cases b) auto

lemma nf_less_asym: "nf_less a b \<Longrightarrow> \<not> nf_less b a"
  by (cases a; cases b) auto

lemma local_maxima_flat:
  assumes "i < length x - 1" and "\<not> nf_less (x ! (i - 1)) (x ! i)" and "j = i + 1"
  shows "local_maxima x i = local_maxima x j"
  using assms by (subst local_maxima.simps) simp

lemma local_maxima_rise:
  assumes "i < length x - 1" and "nf_less (x ! i) (x ! j)" and "j = i + 1"
  shows "local_maxima x i = local_maxima x j"
proof -
  have "\<not> nf_eq (x ! j) (x ! i)"
    using assms(2) by (cases "x ! i"; cases "x ! j") auto
  then have pe: "plateau_end x i j = j"
    by (subst plateau_end.simps) simp
  have "\<not> nf_less (x ! j) (x ! i)"
    using assms(2) by (rule nf_less_asym)
  then show ?thesis
    using assms(1) pe unfolding assms(3) by (subst local_maxima.simps) (simp add: Let_def)
qed

lemma local_maxima_peak:
  assumes "i < length x - 1" and "nf_less (x ! (i - 1)) (x ! i)"
    and "nf_less (x ! (i + 1)) (x ! i)" and "j = i + 2"
  shows "local_maxima x i = i # local_maxima x j"
proof -
  have "\<not> nf_eq (x ! (i + 1)) (x ! i)"
    using assms(3) by (rule nf_less_not_eq)
  then have pe: "plateau_end x i (i + 1) = i + 1"
    by (subst plateau_end.simps) simp
  show ?thesis
    using assms(1-3) pe unfolding assms(4) by (subst local_maxima.simps) (simp add: Let_def)
qed

lemma lag_sums_length: "length lag_sums = 18"
  by (simp add: lag_sums_def)

lemma vibrato_window_nth:
  assumes "i < 18"
  shows "search_window vibrato_residual ! i
     = Finite (real_of_int (lag_sums ! i) / 11225580599344608900)"
proof -
  have "search_window vibrato_residual ! i = take 18 (search_window vibrato_residual) ! i"
    using assms by simp
  also have "\<dots> = Finite (real_of_int (lag_sums ! i) / 11225580599344608900)"
    unfolding vibrato_window_prefix using assms by (simp add: lag_sums_length)
  finally show ?thesis .
qed

lemma vibrato_window_length: "length (search_window vibrato_residual) = 50"
  by (simp add: search_window_length vibrato_residual_length)

lemma vibrato_first_peak:
  "local_maxima (search_window vibrato_residual) 1
     = 16 # local_maxima (search_window vibrato_residual) 18"
proof -
  let ?x = "search_window vibrato_residual"
  note v = vibrato_window_nth vibrato_window_length lag_sums_def
  have "local_maxima ?x 1 = local_maxima ?x 2"
    by (rule local_maxima_flat) (simp_all add: v)
  also have "\<dots> = local_maxima ?x 3" by (rule local_maxima_flat) (simp_all add: v)
  also have "\<dots> = local_maxima ?x 4" by (rule local_maxima_flat) (simp_all add: v)
  also have "\<dots> = local_maxima ?x 5" by (rule local_maxima_flat) (simp_all add: v)
  also have "\<dots> = local_maxima ?x 6" by (rule local_maxima_flat) (simp_all add: v)
  also have "\<dots> = local_maxima ?x 7" by (rule local_maxima_flat) (simp_all add: v)
  also have "\<dots> = local_maxima ?x 8" by (rule local_maxima_flat) (simp_all add: v)
  also have "\<dots> = local_maxima ?x 9" by (rule local_maxima_flat) (simp_all add: v)
  also have "\<dots> = local_maxima ?x 10" by (rule local_maxima_rise) (simp_all add: v)
  also have "\<dots> = local_maxima ?x 11" by (rule local_maxima_rise) (simp_all add: v)
  also have "\<dots> = local_maxima ?x 12" by (rule local_maxima_rise) (simp_all add: v)
  also have "\<dots> = local_maxima ?x 13" by (rule local_maxima_rise) (simp_all add: v)
  also have "\<dots> = local_maxima ?x 14" by (rule local_maxima_rise) (simp_all add: v)
  also have "\<dots> = local_maxima ?x 15" by (rule local_maxima_rise) (simp_all add: v)
  also have "\<dots> = local_maxima ?x 16" by (rule local_maxima_rise) (simp_all add: v)
  also have "\<dots> = 16 # local_maxima ?x 18" by (rule local_maxima_peak) (simp_all add: v)
  finally show ?thesis .
qed

lemma vibrato_peaks:
  "\<exists>ps. find_peaks scipy_signal (search_window vibrato_residual) (3 / 10) = 16 # ps"
proof -
  let ?x = "search_window vibrato_residual"
  let ?P = "\<lambda>p. nf_le (Finite (3 / 10)) (?x ! p)"
  have p16: "?P 16"
    by (simp add: nf_le_def vibrato_window_nth lag_sums_def)
  have "find_peaks scipy_signal ?x (3 / 10) = filter ?P (local_maxima ?x 1)"
    by (simp add: scipy_signal_def find_peaks_height_def)
  also have "\<dots> = filter ?P (16 # local_maxima ?x 18)"
    by (simp only: vibrato_first_peak)
  also have "\<dots> = 16 # filter ?P (local_maxima ?x 18)"
    using p16 by simp
  finally show ?thesis by blast
qed

subsection \<open>Passing all gates; contours of opposite sign\<close>

lemma vibrato_gates_detected:
  assumes "10 \<le> max_lag_of residual"
    and "find_peaks sig (search_window residual) (3 / 10) = p # ps"
    and "freq = nf_div (nf_div (Finite 1) (Finite (mean (np_diff valid_time)))) (Finite (real p))"
    and "nf_le (Finite (fst (vibrato_freq_range self))) freq"
    and "nf_le freq (Finite (snd (vibrato_freq_range self)))"
    and "depth = nf_mul (Finite 1200)
                   (nf_log2 (nf_div (Finite (np_max residual)) (Finite (mean smoothed))))"
    and "\<not> nf_less (nf_abs depth) (Finite (min_vibrato_depth self))"
  shows "vibrato_gates sig self valid_time smoothed residual =
     \<lparr> detected = True, frequency_hz = Some freq, depth_cents = Some (nf_abs depth),
       coverage = 100 * real (length (filter (\<lambda>r. \<bar>r\<bar> > std residual) residual))
                    / real (length residual) \<rparr>"
proof -
  have a: "\<not> max_lag_of residual < 10" using assms(1) by simp
  have b: "(length (find_peaks sig (search_window residual) (3 / 10)) = 0) = False"
    "hd (find_peaks sig (search_window residual) (3 / 10)) = p"
    using assms(2) by simp_all
  show ?thesis
    unfolding vibrato_gates_def Let_def
    unfolding b assms(3) [symmetric] assms(6) [symmetric]
    using a assms(4,5,7) by (simp only: if_False if_True simp_thms)
qed

lemma sum_list_neg: "sum_list (map (\<lambda>x. - f x) xs) = - sum_list (map f xs)"
  for f :: "'a \<Rightarrow> real"
  by (induction xs) simp_all

lemma dot_uminus_right: "dot xs (map uminus ys) = - dot xs ys"
proof -
  have "zip xs (map uminus ys) = map (\<lambda>(x, y). (x, - y)) (zip xs ys)"
    by (simp add: zip_map2)
  then show ?thesis
    by (simp add: dot_def comp_def case_prod_unfold sum_list_neg)
qed

lemma dot_uminus_left: "dot (map uminus xs) ys = - dot xs ys"
proof -
  have "zip (map uminus xs) ys = map (\<lambda>(x, y). (- x, y)) (zip xs ys)"
    by (simp add: zip_map1)
  then show ?thesis
    by (simp add: dot_def comp_def case_prod_unfold sum_list_neg)
qed

lemma cubic_coeffs_uminus: "cubic_coeffs m (map uminus win) = map uminus (cubic_coeffs m win)"
  by (simp add: cubic_coeffs_def dot_uminus_right)

lemma cubic_value_uminus: "cubic_value m (map uminus cs) s = - cubic_value m cs s"
  by (simp add: cubic_value_def dot_uminus_left)

lemma savgol_cubic_uminus:
  "savgol_cubic (map uminus x) w = map_option (map uminus) (savgol_cubic x w)"
  by (simp add: savgol_cubic_def Let_def take_map drop_map cubic_coeffs_uminus
      cubic_value_uminus)

lemma smoothed_values_uminus:
  "smoothed_values scipy_signal (map uminus x) = map uminus (smoothed_values scipy_signal x)"
  by (simp add: smoothed_values_def scipy_signal_def savgol_cubic_uminus split: option.split)

lemma residual_values_uminus:
  "residual_values scipy_signal (map uminus x) = map uminus (residual_values scipy_signal x)"
  by (simp add: residual_values_def smoothed_values_uminus zip_map_map case_prod_unfold)

lemma mean_uminus: "mean (map uminus xs) = - mean xs"
  using sum_list_neg [of "\<lambda>x. x" xs] by (simp add: mean_def comp_def)

lemma search_window_uminus: "search_window (map uminus r) = search_window r"
proof -
  have c: "map (\<lambda>x. x - mean (map uminus r)) (map uminus r)
             = map uminus (map (\<lambda>x. x - mean r) r)"
    by (simp add: mean_uminus)
  have a: "autocorrelation (map uminus c) = autocorrelation c" for c
    by (simp add: autocorrelation_def drop_map zip_map_map case_prod_unfold comp_def)
  show ?thesis
    unfolding search_window_def Let_def c a by (simp add: max_lag_of_def)
qed

subsection \<open>The detector on the two test contours\<close>

lemma voiced_values_all: "voiced_values (map (\<lambda>v. Some (g v)) xs) = map g xs"
  by (induction xs) (simp_all add: voiced_values_def)

lemma voiced_times_all:
  "length ts = length xs \<Longrightarrow> voiced_times (map (\<lambda>v. Some (g v)) xs) ts = ts"
  by (induction ts xs rule: list_induct2) (simp_all add: voiced_times_def)

lemma vibrato_smoothed_length: "length vibrato_smoothed = 100"
  by (simp add: vibrato_smoothed_def smoothed_scaled_def)

lemma smoothed_vibrato: "smoothed_values scipy_signal vibrato_values = vibrato_smoothed"
  by (simp add: smoothed_values_def scipy_signal_def vibrato_values_length savgol_vibrato)

lemma residual_vibrato: "residual_values scipy_signal vibrato_values = vibrato_residual"
  by (simp add: residual_values_def smoothed_vibrato vibrato_residual_def)

lemma mean_frame_steps:
  "mean (np_diff frame_times) = 1 / 100" "mean (np_diff slow_times) = 1 / 20"
  by (simp_all add: frame_times_def slow_times_def upt_from_2 upt_numeral np_diff_def mean_def)

lemma vibrato_extremes:
  "np_max vibrato_residual = 15766904 / 1229865"
  "np_max (map uminus vibrato_residual) = 66884708 / 5165433"
  "mean vibrato_smoothed = 9451503 / 31535"
  by (simp_all add: np_max_def mean_def vibrato_residual_def vibrato_values_def
      upt_from_2 upt_numeral triangle_def vibrato_smoothed_def smoothed_scaled_def)

lemma depth_nan:
  assumes "0 < m" and "s < 0"
  shows "nf_mul (Finite 1200) (nf_log2 (nf_div (Finite m) (Finite s))) = NaN"
proof -
  have "m / s < 0" using assms by (simp add: divide_pos_neg)
  then show ?thesis using assms by simp
qed

lemma depth_deep:
  assumes "0 < m" and "0 < s" and "m / s \<le> 1 / 2"
  shows "\<not> nf_less (nf_abs (nf_mul (Finite 1200) (nf_log2 (nf_div (Finite m) (Finite s)))))
             (Finite 30)"
proof -
  have q: "0 < m / s" using assms by simp
  have "log 2 (m / s) \<le> log 2 (1 / 2)"
    using q assms(3) by (subst log_le_cancel_iff) simp_all
  also have "log 2 (1 / 2) = - 1"
    by (simp add: log_divide)
  finally have "log 2 (m / s) \<le> - 1" .
  then have "30 \<le> \<bar>1200 * log 2 (m / s)\<bar>" by simp
  then show ?thesis using q assms(2) by simp
qed

lemma slow_vibrato:
  "\<exists>d c. detect_vibrato scipy_signal slow_analyzer vibrato_contour slow_times
     = Inr \<lparr> detected = True, frequency_hz = Some (Finite (5 / 4)),
             depth_cents = Some d, coverage = c \<rparr>"
proof -
  have len: "length slow_times = length vibrato_contour"
    by (simp add: slow_times_def vibrato_contour_def vibrato_values_length)
  have vv: "voiced_values vibrato_contour = vibrato_values"
    using voiced_values_all [of "\<lambda>v. v" vibrato_values] by (simp add: vibrato_contour_def)
  have vt: "voiced_times vibrato_contour slow_times = slow_times"
    using voiced_times_all [of slow_times vibrato_values "\<lambda>v. v"]
    by (simp add: vibrato_contour_def slow_times_def vibrato_values_length)
  obtain ps where ps: "find_peaks scipy_signal (search_window vibrato_residual) (3 / 10) = 16 # ps"
    using vibrato_peaks by blast
  define depth where "depth = nf_mul (Finite 1200)
       (nf_log2 (nf_div (Finite (np_max vibrato_residual)) (Finite (mean vibrato_smoothed))))"
  have g: "vibrato_gates scipy_signal slow_analyzer slow_times vibrato_smoothed vibrato_residual =
     \<lparr> detected = True, frequency_hz = Some (Finite (5 / 4)), depth_cents = Some (nf_abs depth),
       coverage = 100 * real (length (filter (\<lambda>r. \<bar>r\<bar> > std vibrato_residual) vibrato_residual))
                    / real (length vibrato_residual) \<rparr>"
  proof (rule vibrato_gates_detected [OF _ ps])
    show "10 \<le> max_lag_of vibrato_residual"
      by (simp add: max_lag_half vibrato_residual_length)
    show "Finite (5 / 4)
        = nf_div (nf_div (Finite 1) (Finite (mean (np_diff slow_times)))) (Finite (real 16))"
      by (simp add: mean_frame_steps)
    show "nf_le (Finite (fst (vibrato_freq_range slow_analyzer))) (Finite (5 / 4))"
      by (simp add: slow_analyzer_def nf_le_def)
    show "nf_le (Finite (5 / 4)) (Finite (snd (vibrato_freq_range slow_analyzer)))"
      by (simp add: slow_analyzer_def nf_le_def)
    show "depth = nf_mul (Finite 1200)
       (nf_log2 (nf_div (Finite (np_max vibrato_residual)) (Finite (mean vibrato_smoothed))))"
      by (rule depth_def)
    show "\<not> nf_less (nf_abs depth) (Finite (min_vibrato_depth slow_analyzer))"
      unfolding depth_def using depth_deep [of "np_max vibrato_residual" "mean vibrato_smoothed"]
      by (simp add: vibrato_extremes slow_analyzer_def)
  qed
  show ?thesis
    by (simp add: detect_vibrato_same_length [OF len] vv vt smoothed_vibrato residual_vibrato
        vibrato_values_length vibrato_smoothed_length g)
qed

lemma negative_vibrato:
  "\<exists>c. detect_vibrato scipy_signal default_analyzer negative_contour frame_times
     = Inr \<lparr> detected = True, frequency_hz = Some (Finite (25 / 4)),
             depth_cents = Some NaN, coverage = c \<rparr>"
proof -
  let ?nv = "map uminus vibrato_values"
  let ?ns = "map uminus vibrato_smoothed"
  let ?nr = "map uminus vibrato_residual"
  have len: "length frame_times = length negative_contour"
    by (simp add: frame_times_def negative_contour_def vibrato_values_length)
  have vv: "voiced_values negative_contour = ?nv"
    using voiced_values_all [of uminus vibrato_values] by (simp add: negative_contour_def)
  have vt: "voiced_times negative_contour frame_times = frame_times"
    using voiced_times_all [of frame_times vibrato_values uminus]
    by (simp add: negative_contour_def frame_times_def vibrato_values_length)
  have sm: "smoothed_values scipy_signal ?nv = ?ns"
    by (simp only: smoothed_values_uminus smoothed_vibrato)
  have rs: "residual_values scipy_signal ?nv = ?nr"
    by (simp only: residual_values_uminus residual_vibrato)
  obtain ps where ps: "find_peaks scipy_signal (search_window ?nr) (3 / 10) = 16 # ps"
    using vibrato_peaks unfolding search_window_uminus by blast
  define depth where "depth = nf_mul (Finite 1200)
       (nf_log2 (nf_div (Finite (np_max ?nr)) (Finite (mean ?ns))))"
  have nan: "depth = NaN"
    unfolding depth_def by (rule depth_nan) (simp_all add: vibrato_extremes mean_uminus)
  have g: "vibrato_gates scipy_signal default_analyzer frame_times ?ns ?nr =
     \<lparr> detected = True, frequency_hz = Some (Finite (25 / 4)), depth_cents = Some (nf_abs depth),
       coverage = 100 * real (length (filter (\<lambda>r. \<bar>r\<bar> > std ?nr) ?nr)) / real (length ?nr) \<rparr>"
  proof (rule vibrato_gates_detected [OF _ ps])
    show "10 \<le> max_lag_of ?nr"
      by (simp add: max_lag_half vibrato_residual_length)
    show "Finite (25 / 4)
        = nf_div (nf_div (Finite 1) (Finite (mean (np_diff frame_times)))) (Finite (real 16))"
      by (simp add: mean_frame_steps)
    show "nf_le (Finite (fst (vibrato_freq_range default_analyzer))) (Finite (25 / 4))"
      by (simp add: default_analyzer_def nf_le_def)
    show "nf_le (Finite (25 / 4)) (Finite (snd (vibrato_freq_range default_analyzer)))"
      by (simp add: default_analyzer_def nf_le_def)
    show "depth = nf_mul (Finite 1200)
       (nf_log2 (nf_div (Finite (np_max ?nr)) (Finite (mean ?ns))))"
      by (rule depth_def)
    show "\<not> nf_less (nf_abs depth) (Finite (min_vibrato_depth default_analyzer))"
      by (simp add: nan)
  qed
  show ?thesis
    by (simp add: detect_vibrato_same_length [OF len] vv vt sm rs
        vibrato_values_length vibrato_smoothed_length g nan)
qed

subsection \<open>The rejection gates\<close>

lemma not_detected_fields:
  "detected not_detected = False" "frequency_hz not_detected = None"
  "depth_cents not_detected = None" "coverage not_detected = 0"
  by (simp_all add: not_detected_def)

lemma gate_voiced_frames:
  "length (voiced_values pitch) < 100 \<Longrightarrow> detect_vibrato sig self pitch time = Inr not_detected"
  by (simp add: detect_vibrato_def Let_def count_voiced)

lemma gate_no_peak:
  "find_peaks sig (search_window residual) (3 / 10) = [] \<Longrightarrow>
   vibrato_gates sig self valid_time smoothed residual = not_detected"
  by (simp add: vibrato_gates_def Let_def)

lemma gate_frequency:
  assumes "freq = nf_div (nf_div (Finite 1) (Finite (mean (np_diff valid_time))))
                    (Finite (real (hd (find_peaks sig (search_window residual) (3 / 10)))))"
    and "\<not> (nf_le (Finite (fst (vibrato_freq_range self))) freq
            \<and> nf_le freq (Finite (snd (vibrato_freq_range self))))"
  shows "vibrato_gates sig self valid_time smoothed residual = not_detected"
  using assms(2) unfolding vibrato_gates_def Let_def assms(1) [symmetric]
  by (simp only: if_True if_False simp_thms if_cancel split: if_split)

lemma gate_depth:
  assumes "depth = nf_mul (Finite 1200)
                   (nf_log2 (nf_div (Finite (np_max residual)) (Finite (mean smoothed))))"
    and "nf_less (nf_abs depth) (Finite (min_vibrato_depth self))"
  shows "vibrato_gates sig self valid_time smoothed residual = not_detected"
  using assms(2) unfolding vibrato_gates_def Let_def assms(1) [symmetric]
  by (simp only: if_True if_False simp_thms if_cancel split: if_split)

lemma detected_in_range:
  assumes "detected (vibrato_gates sig self valid_time smoothed residual)"
  shows "\<exists>f d. frequency_hz (vibrato_gates sig self valid_time smoothed residual) = Some f
            \<and> nf_le (Finite (fst (vibrato_freq_range self))) f
            \<and> nf_le f (Finite (snd (vibrato_freq_range self)))
            \<and> depth_cents (vibrato_gates sig self valid_time smoothed residual) = Some d
            \<and> \<not> nf_less d (Finite (min_vibrato_depth self))"
proof -
  define freq where "freq = nf_div (nf_div (Finite 1) (Finite (mean (np_diff valid_time))))
                    (Finite (real (hd (find_peaks sig (search_window residual) (3 / 10)))))"
  define depth where "depth = nf_mul (Finite 1200)
                   (nf_log2 (nf_div (Finite (np_max residual)) (Finite (mean smoothed))))"
  have in_range: "nf_le (Finite (fst (vibrato_freq_range self))) freq
            \<and> nf_le freq (Finite (snd (vibrato_freq_range self)))"
  proof (rule ccontr)
    assume "\<not> (nf_le (Finite (fst (vibrato_freq_range self))) freq
            \<and> nf_le freq (Finite (snd (vibrato_freq_range self))))"
    then have "vibrato_gates sig self valid_time smoothed residual = not_detected"
      by (rule gate_frequency [OF freq_def])
    with assms show False by (simp add: not_detected_fields)
  qed
  have deep: "\<not> nf_less (nf_abs depth) (Finite (min_vibrato_depth self))"
  proof
    assume "nf_less (nf_abs depth) (Finite (min_vibrato_depth self))"
    then have "vibrato_gates sig self valid_time smoothed residual = not_detected"
      by (rule gate_depth [OF depth_def])
    with assms show False by (simp add: not_detected_fields)
  qed
  have "vibrato_gates sig self valid_time smoothed residual = not_detected
      \<or> (frequency_hz (vibrato_gates sig self valid_time smoothed residual) = Some freq
         \<and> depth_cents (vibrato_gates sig self valid_time smoothed residual) = Some (nf_abs depth))"
    unfolding vibrato_gates_def Let_def freq_def [symmetric] depth_def [symmetric]
    by (simp only: if_distrib [of frequency_hz] if_distrib [of depth_cents]
        VibratoMetrics.simps split: if_split) simp
  then show ?thesis using assms in_range deep by (auto simp: not_detected_fields)
qed

lemma nf_abs_not_below:
  "\<not> nf_less (nf_abs d) (Finite m) \<Longrightarrow> nf_abs d = NaN \<or> nf_le (Finite m) (nf_abs d)"
  by (cases d) (auto simp: nf_le_def)

section \<open>The quick scorer\<close>

lemma py_clamp: "py_max 0 (py_min 100 x) = max 0 (min 100 x)"
  by (simp add: py_max_def py_min_def max_def min_def)

lemma sum_list_filter_index:
  fixes f :: "'a \<Rightarrow> real"
  shows "sum_list (map f (filter P zs)) = (\<Sum>i\<in>{i \<in> {0..<length zs}. P (zs ! i)}. f (zs ! i))"
proof -
  have "sum_list (map f (filter P zs)) = sum_list (map (\<lambda>z. if P z then f z else 0) zs)"
    by (simp add: sum_list_map_filter')
  also have "\<dots> = (\<Sum>i = 0..<length zs. if P (zs ! i) then f (zs ! i) else 0)"
    by (simp add: sum_list_sum_nth)
  also have "\<dots> = (\<Sum>i\<in>{i \<in> {0..<length zs}. P (zs ! i)}. f (zs ! i))"
    by (rule sum.inter_filter [symmetric]) simp
  finally show ?thesis .
qed

lemma length_filter_index:
  "length (filter P zs) = card {i \<in> {0..<length zs}. P (zs ! i)}"
proof -
  have "{i \<in> {0..<length zs}. P (zs ! i)} = {i. i < length zs \<and> P (zs ! i)}" by auto
  then show ?thesis by (simp add: length_filter_conv_card)
qed

lemma masked_pairs_spec:
  assumes "length u = length t"
  shows "sum_list (map (\<lambda>(a, b). \<bar>a - b\<bar>) (masked_pairs u t))
           = (\<Sum>i\<in>present_frames u t. \<bar>the (u ! i) - the (t ! i)\<bar>)"
    and "length (masked_pairs u t) = card (present_frames u t)"
proof -
  let ?P = "\<lambda>(a, b). a \<noteq> None \<and> b \<noteq> (None :: real option)"
  have idx: "{i \<in> {0..<length (zip u t)}. ?P (zip u t ! i)} = present_frames u t"
  proof -
    have "\<And>i. i < length u \<Longrightarrow> zip u t ! i = (u ! i, t ! i)"
      using assms by simp
    then show ?thesis
      using assms unfolding present_frames_def by (intro Collect_cong) (auto simp: case_prod_unfold)
  qed
  have "sum_list (map (\<lambda>(a, b). \<bar>a - b\<bar>) (masked_pairs u t))
        = sum_list (map (\<lambda>p. \<bar>the (fst p) - the (snd p)\<bar>) (filter ?P (zip u t)))"
    by (simp add: masked_pairs_def case_prod_unfold comp_def)
  also have "\<dots> = (\<Sum>i\<in>{i \<in> {0..<length (zip u t)}. ?P (zip u t ! i)}.
                      \<bar>the (fst (zip u t ! i)) - the (snd (zip u t ! i))\<bar>)"
    by (rule sum_list_filter_index)
  also have "\<dots> = (\<Sum>i\<in>present_frames u t. \<bar>the (u ! i) - the (t ! i)\<bar>)"
    unfolding idx using assms by (intro sum.cong) (auto simp: present_frames_def simp del: not_None_eq)
  finally show "sum_list (map (\<lambda>(a, b). \<bar>a - b\<bar>) (masked_pairs u t))
           = (\<Sum>i\<in>present_frames u t. \<bar>the (u ! i) - the (t ! i)\<bar>)" .
  have "length (masked_pairs u t) = length (filter ?P (zip u t))"
    by (simp add: masked_pairs_def)
  also have "\<dots> = card {i \<in> {0..<length (zip u t)}. ?P (zip u t ! i)}"
    by (rule length_filter_index)
  finally show "length (masked_pairs u t) = card (present_frames u t)"
    unfolding idx .
qed

lemma present_frames_finite: "finite (present_frames u t)"
  by (simp add: present_frames_def)

lemma score_pitch_spec:
  assumes "length u = length t"
  shows "score_pitch u t = Inr (quick_score_spec u t)"
proof -
  have e: "masked_pairs u t = [] \<longleftrightarrow> present_frames u t = {}"
    using masked_pairs_spec(2) [OF assms] present_frames_finite [of u t]
    by (metis card_0_eq length_0_conv)
  have m: "mean (map (\<lambda>(a, b). \<bar>a - b\<bar>) (masked_pairs u t)) = mean_abs_error u t"
    by (simp add: mean_def mean_abs_error_def masked_pairs_spec [OF assms])
  show ?thesis
    by (simp add: score_same_length [OF assms] e m quick_score_spec_def py_clamp)
qed

lemma score_identical:
  assumes "u \<noteq> []" and "None \<notin> set u"
  shows "score_pitch u u = Inr 100"
proof -
  have ne: "present_frames u u \<noteq> {}"
  proof -
    from assms have "u ! 0 \<noteq> None"
      by (metis length_greater_0_conv nth_mem)
    with assms have "0 \<in> present_frames u u"
      by (simp add: present_frames_def)
    then show ?thesis by blast
  qed
  have "mean_abs_error u u = 0"
    by (simp add: mean_abs_error_def)
  then show ?thesis
    using ne by (simp add: score_pitch_spec quick_score_spec_def)
qed

text \<open>
  C6: on arrays of equal shape \<open>Scorer.score_pitch\<close> returns \<open>100 - 0.5 * \<close>(the mean
  absolute error in Hz over the frames where both values are present), clamped to
  \<open>[0, 100]\<close>; it returns \<open>0\<close> when no frame has both values present; and on two identical
  non-empty arrays without an absent entry it returns exactly \<open>100\<close>.
\<close>

theorem quick_score_contract:
  assumes "length u = length t"
  shows "score_pitch u t = Inr (quick_score_spec u t) \<and>
         (present_frames u t = {} \<longrightarrow> score_pitch u t = Inr 0) \<and>
         (u = t \<and> u \<noteq> [] \<and> None \<notin> set u \<longrightarrow> score_pitch u t = Inr 100)"
proof (intro conjI impI)
  show "score_pitch u t = Inr (quick_score_spec u t)"
    by (rule score_pitch_spec [OF assms])
next
  assume "present_frames u t = {}"
  then show "score_pitch u t = Inr 0"
    by (simp add: score_pitch_spec [OF assms] quick_score_spec_def)
next
  assume "u = t \<and> u \<noteq> [] \<and> None \<notin> set u"
  then show "score_pitch u t = Inr 100"
    using score_identical [of u] by auto
qed

theorem quick_score_contract_witness:
  "length [Some 440, None, Some 220] = length [Some 440, None, Some (220::real)] \<and>
   score_pitch [Some 440, Some 220] [Some 440, Some 220] = Inr 100 \<and>
   score_pitch [Some 440, None, Some 220] [Some 450, Some 3, Some 200] = Inr (185 / 2) \<and>
   score_pitch [Some 440, None] [None, Some 3] = Inr 0"
proof -
  have a: "present_frames [Some 440, None, Some 220] [Some 450, Some 3, Some 200] = {0, 2}"
    by (auto simp: present_frames_def nth_Cons' less_Suc_eq)
  have b: "present_frames [Some 440, None] [None, Some 3] = {}"
    by (auto simp: present_frames_def nth_Cons' less_Suc_eq)
  have 1: "score_pitch [Some 440, Some 220] [Some 440, Some 220] = Inr 100"
  proof -
    have "[Some 440, Some 220] = [Some 440, Some (220::real)] \<and> [Some 440, Some (220::real)] \<noteq> []
            \<and> None \<notin> set [Some 440, Some (220::real)]
          \<longrightarrow> score_pitch [Some 440, Some 220] [Some 440, Some 220] = Inr 100"
      using quick_score_contract [of "[Some 440, Some 220]" "[Some 440, Some 220]"] by blast
    then show ?thesis by simp
  qed
  have 2: "score_pitch [Some 440, None, Some 220] [Some 450, Some 3, Some 200] = Inr (185 / 2)"
    using quick_score_contract [of "[Some 440, None, Some 220]" "[Some 450, Some 3, Some 200]"]
    by (simp add: quick_score_spec_def mean_abs_error_def a)
  have 3: "score_pitch [Some 440, None] [None, Some 3] = Inr 0"
    using quick_score_contract [of "[Some 440, None]" "[None, Some 3]"] by (simp add: b quick_score_spec_def)
  show ?thesis using 1 2 3 by simp
qed

text \<open>
  C7: \<open>Scorer.score_pitch\<close> raises exactly when the two shapes differ: every mismatch is
  answered by the error and by no score (nothing is truncated or otherwise repaired), and
  on equal shapes a score is returned.
\<close>

theorem score_pitch_raises_iff_shape_mismatch:
  "(length u \<noteq> length t \<longrightarrow> score_pitch u t = Inl ShapeMismatch) \<and>
   (length u = length t \<longrightarrow> (\<exists>s. score_pitch u t = Inr s))"
  by (simp add: score_same_length) (simp add: score_pitch_def)

theorem score_pitch_raises_iff_shape_mismatch_witness:
  "score_pitch [Some 440, None] [Some 440] = Inl ShapeMismatch \<and>
   (\<exists>s. score_pitch [Some 440, None] [Some 450, Some 3] = Inr s)"
  using score_pitch_raises_iff_shape_mismatch [of "[Some 440, None]" "[Some 440]"]
    score_pitch_raises_iff_shape_mismatch [of "[Some 440, None]" "[Some 450, Some 3]"]
  by simp

section \<open>Pitch accuracy\<close>

text \<open>
  C5: for two contours of equal length in which no frame has both values present,
  \<open>analyze_pitch_accuracy\<close> raises nothing and returns the degenerate metrics: NaN mean
  and standard deviation of the error, accuracy \<open>0\<close>, stability \<open>0\<close>, no voiced frame,
  and the input length as the number of frames.
\<close>

theorem degenerate_metrics:
  assumes "length u = length t" and "\<forall>i<length u. u ! i = None \<or> t ! i = None"
  shows "analyze_pitch_accuracy self u t time =
     Inr \<lparr> mean_error_hz = NaN, std_error_hz = NaN, accuracy = 0, stability = 0,
           voiced_frames = 0, total_frames = int (length u) \<rparr>"
  using assms by (simp add: analyze_same_length masked_pairs_empty_iff)

theorem degenerate_metrics_witness:
  "analyze_pitch_accuracy default_analyzer [None, Some 440, None] [Some 440, None, None] [0, 1, 2] =
     Inr \<lparr> mean_error_hz = NaN, std_error_hz = NaN, accuracy = 0, stability = 0,
           voiced_frames = 0, total_frames = 3 \<rparr>"
proof -
  have h1: "length [None, Some 440, None] = length [Some (440::real), None, None]" by simp
  have h2: "\<forall>i<length [None, Some (440::real), None].
      [None, Some 440, None] ! i = None \<or> [Some (440::real), None, None] ! i = None"
    by (simp add: nth_Cons' less_Suc_eq)
  from degenerate_metrics [OF h1 h2, of default_analyzer "[0, 1, 2]"]
  show ?thesis by simp
qed

text \<open>
  C10: the result of \<open>analyze_pitch_accuracy\<close>, metrics or error, is the same for any two
  time arrays: the time argument is never read.
\<close>

theorem analyze_ignores_time:
  "analyze_pitch_accuracy self u t time1 = analyze_pitch_accuracy self u t time2"
  by (simp add: analyze_pitch_accuracy_def)

section \<open>One semitone sharp\<close>



















section \<open>The vibrato detector against its specification\<close>

lemma vibrato_contour_voiced:
  "voiced_values vibrato_contour = vibrato_values"
  "voiced_times vibrato_contour slow_times = slow_times"
proof -
  show "voiced_values vibrato_contour = vibrato_values"
    using voiced_values_all [of "\<lambda>v. v" vibrato_values] by (simp add: vibrato_contour_def)
  show "voiced_times vibrato_contour slow_times = slow_times"
    using voiced_times_all [of slow_times vibrato_values "\<lambda>v. v"]
    by (simp add: vibrato_contour_def slow_times_def vibrato_values_length)
qed

text \<open>
  C3: the peak search would be restricted to lags up to half the residual's length and
  capped at 0.5 seconds of real time. The code has the first restriction only. On the
  test contour with frames 50 ms apart the window handed to the peak search has 50 lags,
  that is 2.5 seconds, and with a frequency range of 1 to 2 Hz the detector reports a
  vibrato of 1.25 Hz: the peak at lag 16, 0.8 seconds, beyond the half second of the source's
  own comment.
\<close>

theorem search_beyond_half_second:
  "map_sum id (\<lambda>v. (detected v, frequency_hz v))
     (detect_vibrato scipy_signal slow_analyzer vibrato_contour slow_times)
     = Inr (True, Some (Finite (5 / 4)))
   \<and> length (search_window (residual_values scipy_signal (voiced_values vibrato_contour))) = 50
   \<and> mean (np_diff (voiced_times vibrato_contour slow_times)) = 1 / 20"
proof -
  obtain d c where "detect_vibrato scipy_signal slow_analyzer vibrato_contour slow_times
     = Inr \<lparr> detected = True, frequency_hz = Some (Finite (5 / 4)),
             depth_cents = Some d, coverage = c \<rparr>"
    using slow_vibrato by blast
  then show ?thesis
    by (simp add: vibrato_contour_voiced residual_vibrato vibrato_window_length
        mean_frame_steps)
qed

text \<open>
  C8: each of the four gates returns the result without metrics (\<open>gate_voiced_frames\<close>,
  \<open>gate_no_peak\<close>, \<open>gate_frequency\<close>, \<open>gate_depth\<close>), and a detected vibrato has its
  frequency in the range (\<open>detected_in_range\<close>). Its depth, however, is only known not
  to be below the minimum: on the contour of negative values the quotient under the
  logarithm is negative, the depth is NaN, the comparison of the depth gate is false, and
  the detector reports a vibrato whose depth is not at least the minimal depth.
\<close>

theorem nan_depth_passes_gate:
  "map_sum id (\<lambda>v. (detected v, frequency_hz v, depth_cents v))
     (detect_vibrato scipy_signal default_analyzer negative_contour frame_times)
     = Inr (True, Some (Finite (25 / 4)), Some NaN)
   \<and> \<not> nf_le (Finite (min_vibrato_depth default_analyzer)) NaN"
proof -
  obtain c where "detect_vibrato scipy_signal default_analyzer negative_contour frame_times
     = Inr \<lparr> detected = True, frequency_hz = Some (Finite (25 / 4)),
             depth_cents = Some NaN, coverage = c \<rparr>"
    using negative_vibrato by blast
  then show ?thesis by (simp add: nf_le_def)
qed


end
